theory Spec2Isabelle
  imports Complex_Main "HOL-Library.Word"
begin

unbundle bit_operations_syntax

section \<open>JavaScript values used by the tracking routes\<close>

text \<open>
  A JavaScript \<open>Date\<close> is its time value: whole milliseconds since the epoch.
  \<open>new Date(tv)\<close> on a number truncates \<open>tv\<close> towards zero. Numbers are modelled as
  exact reals: IEEE rounding, NaN and time values beyond the Date range are outside the
  model. All clock reads of one request (\<open>Date.now()\<close>, \<open>new Date()\<close>) are taken at the
  same instant \<open>now\<close>, which the handlers receive as an argument.
\<close>

type_synonym date = int

definition js_trunc :: "real \<Rightarrow> int" where
  "js_trunc x = (if 0 \<le> x then \<lfloor>x\<rfloor> else \<lceil>x\<rceil>)"

definition new_Date :: "real \<Rightarrow> date" where
  "new_Date tv = js_trunc tv"

text \<open>\<open>x || 0\<close> on an optional number: \<open>undefined\<close> and \<open>0\<close> are falsy.\<close>

definition or_zero :: "real option \<Rightarrow> real" where
  "or_zero x = (case x of None \<Rightarrow> 0 | Some v \<Rightarrow> if v = 0 then 0 else v)"

text \<open>
  Event payloads are object literals: field names with values, in the order written.
  \<open>JIso d\<close> is the string \<open>d.toISOString()\<close>; \<open>JUndefined\<close> is a field whose value is
  \<open>undefined\<close>.
\<close>

datatype jsval = JString string | JNumber real | JIso date | JUndefined

type_synonym payload = "(string \<times> jsval) list"

record event =
  room :: string
  name :: string
  data :: payload

section \<open>The Tracking and Subscription documents\<close>

datatype delivery_type = DT_order | DT_subscription

record current_location =
  cl_latitude :: "real option"
  cl_longitude :: "real option"
  cl_heading :: real
  cl_speed :: real
  cl_accuracy :: real

record point =
  lat :: real
  lng :: real

record route_info =
  polyline :: "string option"
  points :: "point list"
  distance :: "real option"
  duration :: "real option"
  eta :: "date option"

record place =
  pl_latitude :: "real option"
  pl_longitude :: "real option"
  pl_address :: "string option"

record history_entry =
  h_latitude :: real
  h_longitude :: real
  timestamp :: date

record tracking =
  orderId :: string
  deliveryType :: delivery_type
  subscriptionId :: "string option"
  subscriptionDeliveryId :: "string option"
  driverId :: string
  driverName :: string
  driverPhone :: string
  driverRating :: real
  status :: "string option"
  currentLocation :: current_location
  route :: route_info
  origin :: place
  destination :: place
  history :: "history_entry list"
  lastUpdated :: date
  createdAt :: date

text \<open>The \<open>enum\<close> of \<open>TrackingSchema.status\<close>.\<close>

definition status_enum :: "string list" where
  "status_enum = [''assigned'', ''picking_up'', ''en_route'', ''nearby'', ''arrived'', ''delivered'']"

text \<open>\<open>new Tracking({ orderId })\<close>: the schema defaults.\<close>

definition new_Tracking :: "string \<Rightarrow> date \<Rightarrow> tracking" where
  "new_Tracking oid now =
     \<lparr>orderId = oid, deliveryType = DT_order, subscriptionId = None,
      subscriptionDeliveryId = None, driverId = ''driver-1'', driverName = ''Rajesh Kumar'',
      driverPhone = ''+91-9876543210'', driverRating = 4.9, status = Some ''assigned'',
      currentLocation = \<lparr>cl_latitude = None, cl_longitude = None, cl_heading = 0,
        cl_speed = 0, cl_accuracy = 10\<rparr>,
      route = \<lparr>polyline = None, points = [], distance = None, duration = None, eta = None\<rparr>,
      origin = \<lparr>pl_latitude = None, pl_longitude = None, pl_address = None\<rparr>,
      destination = \<lparr>pl_latitude = None, pl_longitude = None, pl_address = None\<rparr>,
      history = [], lastUpdated = now, createdAt = now\<rparr>"

record subscription =
  title :: string
  plan :: string
  sub_status :: string
  deliveryStatus :: string
  lastDeliveredDate :: "date option"
  timeSlot :: string
  nextDelivery :: date
  deliveriesInCycle :: int
  lastGotFree :: bool
  addressId :: "string option"
  userId :: string

text \<open>\<open>new Subscription({ title })\<close>: the schema defaults.\<close>

definition new_Subscription :: "string \<Rightarrow> date \<Rightarrow> subscription" where
  "new_Subscription t now =
     \<lparr>title = t, plan = ''daily'', sub_status = ''active'', deliveryStatus = ''pending'',
      lastDeliveredDate = None, timeSlot = ''8-10'', nextDelivery = now, deliveriesInCycle = 0,
      lastGotFree = False, addressId = None, userId = ''default-user''\<rparr>"

text \<open>
  The two collections. Tracking documents are looked up by \<open>orderId\<close>
  (\<open>Tracking.findOne({ orderId })\<close>), subscriptions by their identifier
  (\<open>Subscription.findById\<close>), written as the 24 hexadecimal digits of the ObjectId. A
  string that is not an ObjectId makes \<open>findById\<close> throw; no subscription is stored under
  such a string, and the handler treats both cases alike.
\<close>

record db =
  trackings :: "string \<rightharpoonup> tracking"
  subscriptions :: "string \<rightharpoonup> subscription"

datatype failure = ValidationError

datatype http_error = NotFound string | ServerError failure

text \<open>
  The validator of an \<open>enum\<close> path accepts a value of the enumeration and also an absent
  value (\<open>undefined\<close>, written \<open>None\<close>): the path is not \<open>required\<close>.
\<close>

definition enumValidator :: "string option \<Rightarrow> bool" where
  "enumValidator v = (case v of None \<Rightarrow> True | Some x \<Rightarrow> x \<in> set status_enum)"

text \<open>
  \<open>tracking.save()\<close> validates the document before writing: a \<open>status\<close> that fails its
  validator makes it throw and nothing is written. A status set to \<open>undefined\<close> passes
  and is stored as absent.
\<close>

definition save_tracking :: "db \<Rightarrow> string \<Rightarrow> tracking \<Rightarrow> failure + db" where
  "save_tracking d oid t =
     (if enumValidator (status t)
      then Inr (d\<lparr>trackings := (trackings d)(oid \<mapsto> t)\<rparr>)
      else Inl ValidationError)"

section \<open>PATCH /:orderId/status\<close>

definition statusMap :: "(string \<times> string) list" where
  "statusMap = [(''assigned'', ''packed''), (''picking_up'', ''packed''),
     (''en_route'', ''out_for_delivery''), (''nearby'', ''nearby''), (''arrived'', ''nearby''),
     (''delivered'', ''delivered'')]"

text \<open>
  \<open>d.setDate(d.getDate() + n)\<close>: the same wall-clock time \<open>n\<close> calendar days later; the
  server's time zone is taken to have a fixed offset, so a day is 86 400 000 ms.
\<close>

definition addDays :: "date \<Rightarrow> int \<Rightarrow> date" where
  "addDays d n = d + n * 86400000"

definition nextDeliveryDate :: "string \<Rightarrow> date \<Rightarrow> date" where
  "nextDeliveryDate p today =
     (if p = ''daily'' then addDays today 1
      else if p = ''alternate'' then addDays today 2
      else if p = ''weekly'' then addDays today 7
      else addDays today 1)"

text \<open>
  The body of the inner \<open>try\<close>. \<open>statusMap[status] || 'pending'\<close> falls back to \<open>pending\<close>
  for a status that is no key of the table, an absent one included. A subscription that
  is not found leaves the store as it is; so does an exception of the lookup, which the
  \<open>catch\<close> only logs.
\<close>

definition syncSubscription :: "db \<Rightarrow> date \<Rightarrow> string \<Rightarrow> string option \<Rightarrow> db" where
  "syncSubscription d now oid st =
     (let subscriptionStatus =
            (case st of
               None \<Rightarrow> ''pending''
             | Some x \<Rightarrow> (case map_of statusMap x of Some y \<Rightarrow> y | None \<Rightarrow> ''pending''))
      in case subscriptions d oid of
           None \<Rightarrow> d
         | Some sub \<Rightarrow>
             let sub1 = sub\<lparr>deliveryStatus := subscriptionStatus\<rparr>;
                 sub2 = (if subscriptionStatus = ''delivered''
                         then sub1\<lparr>lastDeliveredDate := Some now,
                                deliveriesInCycle :=
                                  (if deliveriesInCycle sub1 = 0 then 0 else deliveriesInCycle sub1) + 1,
                                nextDelivery := nextDeliveryDate (plan sub1) now\<rparr>
                         else sub1)
             in d\<lparr>subscriptions := (subscriptions d)(oid \<mapsto> sub2)\<rparr>)"

text \<open>
  The handler. \<open>st\<close> is \<open>req.body.status\<close>: a string, or \<open>None\<close> when the body carries no
  status. In the payload an absent status is the field \<open>status\<close> with value \<open>undefined\<close>.
\<close>

definition status_value :: "string option \<Rightarrow> jsval" where
  "status_value st = (case st of None \<Rightarrow> JUndefined | Some x \<Rightarrow> JString x)"

definition updateStatus ::
  "db \<Rightarrow> date \<Rightarrow> string \<Rightarrow> string option
     \<Rightarrow> (http_error + tracking) \<times> db \<times> event list" where
  "updateStatus d now oid st =
     (case trackings d oid of
        None \<Rightarrow> (Inl (NotFound ''Tracking not found''), d, [])
      | Some found \<Rightarrow>
          let tracking = found\<lparr>status := st, lastUpdated := now\<rparr>
          in case save_tracking d oid tracking of
               Inl f \<Rightarrow> (Inl (ServerError f), d, [])
             | Inr d1 \<Rightarrow>
                 let d2 = (if deliveryType tracking = DT_subscription \<or> length oid = 24
                           then syncSubscription d1 now oid st else d1)
                 in (Inr tracking, d2,
                     [\<lparr>room = ''order:'' @ oid, name = ''statusUpdate'',
                       data = [(''orderId'', JString oid), (''status'', status_value st),
                               (''timestamp'', JIso (lastUpdated tracking))]\<rparr>]))"

section \<open>PATCH /:orderId/location\<close>

text \<open>\<open>Math.atan2(y, x)\<close> on real numbers.\<close>

definition atan2 :: "real \<Rightarrow> real \<Rightarrow> real" where
  "atan2 y x =
     (if 0 < x then arctan (y / x)
      else if x < 0 then (if 0 \<le> y then arctan (y / x) + pi else arctan (y / x) - pi)
      else if 0 < y then pi / 2
      else if y < 0 then - pi / 2
      else 0)"

definition calculateDistance :: "real \<Rightarrow> real \<Rightarrow> real \<Rightarrow> real \<Rightarrow> real" where
  "calculateDistance lat1 lng1 lat2 lng2 =
     (let R = 6371000;
          dLat = (lat2 - lat1) * pi / 180;
          dLng = (lng2 - lng1) * pi / 180;
          a = sin (dLat / 2) * sin (dLat / 2) +
              cos (lat1 * pi / 180) * cos (lat2 * pi / 180) *
              sin (dLng / 2) * sin (dLng / 2);
          c = 2 * atan2 (sqrt a) (sqrt (1 - a))
      in R * c)"

text \<open>
  The ETA of the location update. The guard \<open>destination?.latitude && destination?.longitude\<close>
  tests truthiness: a coordinate that is absent or equal to \<open>0\<close> fails it.
\<close>

definition newEta :: "place \<Rightarrow> date \<Rightarrow> real \<Rightarrow> real \<Rightarrow> date option" where
  "newEta dest now la lo =
     (case pl_latitude dest of
        None \<Rightarrow> None
      | Some dlat \<Rightarrow>
          (case pl_longitude dest of
             None \<Rightarrow> None
           | Some dlng \<Rightarrow>
               if dlat \<noteq> 0 \<and> dlng \<noteq> 0
               then (let remainingDist = calculateDistance la lo dlat dlng;
                         remainingSeconds = (remainingDist / 1000) / 30 * 3600
                     in Some (new_Date (real_of_int now + remainingSeconds * 1000)))
               else None))"

text \<open>\<open>$push\<close> with \<open>$slice: -n\<close>: append, then keep the last \<open>n\<close> elements.\<close>

definition slice_last :: "nat \<Rightarrow> 'a list \<Rightarrow> 'a list" where
  "slice_last n xs = drop (length xs - n) xs"

definition updateLocation ::
  "db \<Rightarrow> date \<Rightarrow> string \<Rightarrow> real \<Rightarrow> real \<Rightarrow> real option \<Rightarrow> real option
     \<Rightarrow> (http_error + tracking) \<times> db \<times> event list" where
  "updateLocation d now oid la lo hdg spd =
     (case trackings d oid of
        None \<Rightarrow> (Inl (NotFound ''Tracking not found for this order''), d, [])
      | Some existingTracking \<Rightarrow>
          let e = newEta (destination existingTracking) now la lo;
              tracking = existingTracking
                \<lparr>currentLocation := (currentLocation existingTracking)
                   \<lparr>cl_latitude := Some la, cl_longitude := Some lo,
                    cl_heading := or_zero hdg, cl_speed := or_zero spd\<rparr>,
                 route := (route existingTracking)\<lparr>eta := e\<rparr>,
                 lastUpdated := now,
                 history := slice_last 100
                   (history existingTracking @
                     [\<lparr>h_latitude = la, h_longitude = lo, timestamp = now\<rparr>])\<rparr>
          in (Inr tracking, d\<lparr>trackings := (trackings d)(oid \<mapsto> tracking)\<rparr>,
              [\<lparr>room = ''order:'' @ oid, name = ''driverLocation'',
                data = [(''orderId'', JString oid), (''latitude'', JNumber la),
                        (''longitude'', JNumber lo),
                        (''heading'', JNumber (cl_heading (currentLocation tracking))),
                        (''speed'', JNumber (cl_speed (currentLocation tracking))),
                        (''eta'', (case eta (route tracking) of None \<Rightarrow> JUndefined
                                   | Some t \<Rightarrow> JIso t)),
                        (''timestamp'', JIso (lastUpdated tracking))]\<rparr>]))"

text \<open>
  A run of location updates on one delivery, applied one after the other; the run stops
  at the first call that fails.
\<close>

record location_update =
  u_now :: date
  u_latitude :: real
  u_longitude :: real
  u_heading :: "real option"
  u_speed :: "real option"

fun updateLocations :: "db \<Rightarrow> string \<Rightarrow> location_update list \<Rightarrow> http_error + db" where
  "updateLocations d oid [] = Inr d"
| "updateLocations d oid (u # us) =
     (case updateLocation d (u_now u) oid (u_latitude u) (u_longitude u) (u_heading u) (u_speed u) of
        (Inl err, _, _) \<Rightarrow> Inl err
      | (Inr _, d', _) \<Rightarrow> updateLocations d' oid us)"

definition history_of :: "location_update \<Rightarrow> history_entry" where
  "history_of u = \<lparr>h_latitude = u_latitude u, h_longitude = u_longitude u, timestamp = u_now u\<rparr>"

section \<open>The polyline codec\<close>

text \<open>
  A JavaScript string is a sequence of 16-bit code units. \<open>charCodeAt\<close> beyond the end is
  \<open>NaN\<close>, written \<open>None\<close>; \<open>String.fromCharCode\<close> reduces its argument modulo \<open>2^16\<close>.
\<close>

type_synonym js_string = "16 word list"

definition charCodeAt :: "js_string \<Rightarrow> nat \<Rightarrow> int option" where
  "charCodeAt s i = (if i < length s then Some (uint (s ! i)) else None)"

definition fromCharCode :: "int \<Rightarrow> 16 word" where
  "fromCharCode n = word_of_int n"

text \<open>
  The bitwise operators work on 32-bit two's-complement integers: operands go through
  \<open>ToInt32\<close> (\<open>NaN\<close> becomes \<open>0\<close>), shift counts are taken modulo 32, \<open>>>\<close> keeps the sign.
\<close>

definition toInt32 :: "int \<Rightarrow> int" where
  "toInt32 x = signed_take_bit 31 x"

definition num_toInt32 :: "int option \<Rightarrow> int" where
  "num_toInt32 x = (case x of None \<Rightarrow> 0 | Some v \<Rightarrow> toInt32 v)"

definition js_shl :: "int \<Rightarrow> nat \<Rightarrow> int" where
  "js_shl a n = toInt32 (push_bit (n mod 32) (toInt32 a))"

definition js_sar :: "int \<Rightarrow> nat \<Rightarrow> int" where
  "js_sar a n = drop_bit (n mod 32) (toInt32 a)"

definition js_and :: "int \<Rightarrow> int \<Rightarrow> int" where
  "js_and a b = toInt32 a AND toInt32 b"

definition js_or :: "int \<Rightarrow> int \<Rightarrow> int" where
  "js_or a b = toInt32 a OR toInt32 b"

definition js_not :: "int \<Rightarrow> int" where
  "js_not a = NOT (toInt32 a)"

text \<open>\<open>x >= k\<close> on a number that may be \<open>NaN\<close>: false on \<open>NaN\<close>.\<close>

definition num_ge :: "int option \<Rightarrow> int \<Rightarrow> bool" where
  "num_ge x k = (case x of None \<Rightarrow> False | Some v \<Rightarrow> k \<le> v)"

text \<open>
  The \<open>do \<dots> while (b >= 0x20)\<close> loop, which \<open>decodePolyline\<close> runs once for the latitude
  and once for the longitude of every point. It returns the accumulated \<open>result\<close> and the
  index after the last character read. The loops of the decoder are defined as partial
  functions: a run that never ends would have the value \<open>None\<close>.
\<close>

partial_function (option) decodeChunks :: "js_string \<Rightarrow> nat \<Rightarrow> nat \<Rightarrow> int \<Rightarrow> (int \<times> nat) option" where
  "decodeChunks encoded index shift result =
     (let b = map_option (\<lambda>c. c - 63) (charCodeAt encoded index);
          index' = index + 1;
          result' = js_or result (js_shl (js_and (num_toInt32 b) 0x1f) shift);
          shift' = shift + 5
      in if num_ge b 0x20 then decodeChunks encoded index' shift' result'
         else Some (result', index'))"

text \<open>\<open>(result & 1) ? ~(result >> 1) : (result >> 1)\<close>\<close>

definition unzigzag :: "int \<Rightarrow> int" where
  "unzigzag result = (if js_and result 1 \<noteq> 0 then js_not (js_sar result 1) else js_sar result 1)"

text \<open>
  The outer \<open>while (index < encoded.length)\<close> loop. \<open>la\<close> and \<open>lo\<close> are the running sums
  \<open>lat\<close> and \<open>lng\<close> of the source, integers held in Numbers.
\<close>

partial_function (option) decodeLoop :: "js_string \<Rightarrow> nat \<Rightarrow> int \<Rightarrow> int \<Rightarrow> point list \<Rightarrow> point list option" where
  "decodeLoop encoded index la lo pts =
     (if index < length encoded then
        (case decodeChunks encoded index 0 0 of
           None \<Rightarrow> None
         | Some (result, index1) \<Rightarrow>
             (let la' = la + unzigzag result in
              case decodeChunks encoded index1 0 0 of
                None \<Rightarrow> None
              | Some (result2, index2) \<Rightarrow>
                  (let lo' = lo + unzigzag result2 in
                   decodeLoop encoded index2 la' lo'
                     (pts @ [\<lparr>lat = real_of_int la' / 100000, lng = real_of_int lo' / 100000\<rparr>]))))
      else Some pts)"

definition decodePolyline :: "js_string \<Rightarrow> point list option" where
  "decodePolyline encoded = (if encoded = [] then Some [] else decodeLoop encoded 0 0 0 [])"

declare decodeChunks.simps [code] decodeLoop.simps [code]

text \<open>The \<open>while (sgn_num >= 0x20)\<close> loop of \<open>encodeNumber\<close> and the append after it.\<close>

function encodeChunks :: "int \<Rightarrow> js_string \<Rightarrow> js_string" where
  "encodeChunks sgn_num encoded =
     (if 0x20 \<le> sgn_num
      then encodeChunks (js_sar sgn_num 5)
             (encoded @ [fromCharCode (js_or 0x20 (js_and sgn_num 0x1f) + 63)])
      else encoded @ [fromCharCode (sgn_num + 63)])"
  by pat_completeness auto
termination
proof (relation "measure (\<lambda>(sgn_num, encoded). nat sgn_num)")
  show "wf (measure (\<lambda>(sgn_num, encoded). nat sgn_num))" by simp
next
  fix sgn_num :: int and encoded :: js_string
  assume a: "0x20 \<le> sgn_num"
  have "toInt32 sgn_num \<le> sgn_num"
  proof (cases "sgn_num < 2 ^ 31")
    case True
    with a show ?thesis by (simp add: toInt32_def signed_take_bit_int_eq_self)
  next
    case False
    have "signed_take_bit 31 sgn_num < 2 ^ 31" by (rule signed_take_bit_int_less_exp)
    with False show ?thesis by (simp add: toInt32_def)
  qed
  moreover have "drop_bit 5 (toInt32 sgn_num) < sgn_num"
  proof (cases "0 \<le> toInt32 sgn_num")
    case True
    have "toInt32 sgn_num div 32 < sgn_num"
      using True a \<open>toInt32 sgn_num \<le> sgn_num\<close> by linarith
    then show ?thesis by (simp add: drop_bit_eq_div)
  next
    case False
    then have "drop_bit 5 (toInt32 sgn_num) < 0" by simp
    with a show ?thesis by linarith
  qed
  ultimately show "((js_sar sgn_num 5, encoded @ [fromCharCode (js_or 0x20 (js_and sgn_num 0x1f) + 63)]), (sgn_num, encoded))
        \<in> measure (\<lambda>(sgn_num, encoded). nat sgn_num)"
    using a by (simp add: js_sar_def)
qed

declare encodeChunks.simps [simp del]

definition encodeNumber :: "int \<Rightarrow> js_string" where
  "encodeNumber num =
     (let sgn_num = js_shl num 1;
          sgn_num = (if num < 0 then js_not sgn_num else sgn_num)
      in encodeChunks sgn_num [])"

text \<open>\<open>Math.round\<close>: the nearest integer, ties towards \<open>+\<infinity>\<close>.\<close>

definition js_round :: "real \<Rightarrow> int" where
  "js_round x = \<lfloor>x + 1 / 2\<rfloor>"

text \<open>The \<open>for (const point of coordinates)\<close> loop.\<close>

fun encodeLoop :: "point list \<Rightarrow> js_string \<Rightarrow> int \<Rightarrow> int \<Rightarrow> js_string" where
  "encodeLoop [] encoded prevLat prevLng = encoded"
| "encodeLoop (p # coordinates) encoded prevLat prevLng =
     (let la = js_round (lat p * 100000);
          lo = js_round (lng p * 100000);
          encoded = encoded @ encodeNumber (la - prevLat);
          encoded = encoded @ encodeNumber (lo - prevLng)
      in encodeLoop coordinates encoded la lo)"

definition encodePolyline :: "point list \<Rightarrow> js_string" where
  "encodePolyline coordinates = (if coordinates = [] then [] else encodeLoop coordinates [] 0 0)"

text \<open>
  Vocabulary for the round trip. \<open>zigzag d\<close> is the value \<open>sgn_num\<close> that \<open>encodeNumber\<close>
  computes when \<open>d\<close> fits; \<open>snap p\<close> is the point on the grid of \<open>1e-5\<close> degrees that the
  encoder writes for \<open>p\<close>; \<open>close5\<close> is "within \<open>1e-5\<close> in each coordinate"; \<open>rounded5 x\<close>
  says that \<open>x\<close> has at most 5 decimal places.
\<close>

definition zigzag :: "int \<Rightarrow> int" where
  "zigzag d = (if d < 0 then - 2 * d - 1 else 2 * d)"

definition snap :: "point \<Rightarrow> point" where
  "snap p = \<lparr>lat = real_of_int (js_round (lat p * 100000)) / 100000,
             lng = real_of_int (js_round (lng p * 100000)) / 100000\<rparr>"

definition close5 :: "point \<Rightarrow> point \<Rightarrow> bool" where
  "close5 p q \<longleftrightarrow> \<bar>lat q - lat p\<bar> \<le> 1 / 100000 \<and> \<bar>lng q - lng p\<bar> \<le> 1 / 100000"

definition rounded5 :: "real \<Rightarrow> bool" where
  "rounded5 x \<longleftrightarrow> real_of_int \<lfloor>x * 100000\<rfloor> = x * 100000"

section \<open>The route densifier of the driver simulator\<close>

text \<open>
  Numbers are exact reals here too. \<open>calculateDistanceMeters\<close> is the simulator's own copy
  of the haversine distance.
\<close>

definition calculateDistanceMeters :: "real \<Rightarrow> real \<Rightarrow> real \<Rightarrow> real \<Rightarrow> real" where
  "calculateDistanceMeters lat1 lng1 lat2 lng2 =
     (let R = 6371000;
          dLat = (lat2 - lat1) * pi / 180;
          dLng = (lng2 - lng1) * pi / 180;
          a = sin (dLat / 2) * sin (dLat / 2) +
              cos (lat1 * pi / 180) * cos (lat2 * pi / 180) *
              sin (dLng / 2) * sin (dLng / 2);
          c = 2 * atan2 (sqrt a) (sqrt (1 - a))
      in R * c)"

definition interpolatePoint :: "point \<Rightarrow> point \<Rightarrow> real \<Rightarrow> point" where
  "interpolatePoint start endp fraction =
     \<lparr>lat = lat start + (lat endp - lat start) * fraction,
      lng = lng start + (lng endp - lng start) * fraction\<rparr>"

text \<open>
  The \<open>for\<close> loop of \<open>getPointAtDistance\<close> over the segments, with its running
  \<open>accumulatedDistance\<close>. The callers pass a route of at least two points.
\<close>

function getPointLoop :: "point list \<Rightarrow> real \<Rightarrow> nat \<Rightarrow> real \<Rightarrow> point" where
  "getPointLoop routePoints targetDistance i accumulatedDistance =
     (if i + 1 < length routePoints
      then (let start = routePoints ! i;
                endp = routePoints ! (i + 1);
                segmentDistance =
                  calculateDistanceMeters (lat start) (lng start) (lat endp) (lng endp)
            in if targetDistance \<le> accumulatedDistance + segmentDistance
               then (let distanceIntoSegment = targetDistance - accumulatedDistance;
                         fraction = (if 0 < segmentDistance
                                     then distanceIntoSegment / segmentDistance else 0)
                     in interpolatePoint start endp (min fraction 1))
               else getPointLoop routePoints targetDistance (i + 1)
                      (accumulatedDistance + segmentDistance))
      else last routePoints)"
  by pat_completeness auto
termination
  by (relation "measure (\<lambda>(routePoints, targetDistance, i, accumulatedDistance).
        length routePoints - i)") auto

declare getPointLoop.simps [simp del]

definition getPointAtDistance :: "point list \<Rightarrow> real \<Rightarrow> point" where
  "getPointAtDistance routePoints targetDistance = getPointLoop routePoints targetDistance 0 0"

text \<open>The loop that sums the segment lengths into \<open>totalDistance\<close>.\<close>

function totalLoop :: "point list \<Rightarrow> nat \<Rightarrow> real \<Rightarrow> real" where
  "totalLoop routePoints i totalDistance =
     (if i + 1 < length routePoints
      then (let start = routePoints ! i;
                endp = routePoints ! (i + 1)
            in totalLoop routePoints (i + 1)
                 (totalDistance +
                  calculateDistanceMeters (lat start) (lng start) (lat endp) (lng endp)))
      else totalDistance)"
  by pat_completeness auto
termination
  by (relation "measure (\<lambda>(routePoints, i, totalDistance). length routePoints - i)") auto

declare totalLoop.simps [simp del]

text \<open>
  The loop \<open>for (let i = 0; i <= numPoints; i++)\<close>; the test \<open>if (point)\<close> holds for every
  object, so every point is pushed.
\<close>

function pointsLoop :: "point list \<Rightarrow> real \<Rightarrow> int \<Rightarrow> int \<Rightarrow> point list \<Rightarrow> point list" where
  "pointsLoop routePoints distancePerUpdate numPoints i highResPoints =
     (if i \<le> numPoints
      then (let targetDistance = real_of_int i * distancePerUpdate;
                pt = getPointAtDistance routePoints targetDistance
            in pointsLoop routePoints distancePerUpdate numPoints (i + 1) (highResPoints @ [pt]))
      else highResPoints)"
  by pat_completeness auto
termination
  by (relation "measure (\<lambda>(routePoints, distancePerUpdate, numPoints, i, highResPoints).
        nat (numPoints + 1 - i))") auto

declare pointsLoop.simps [simp del]

text \<open>
  After the loop the final point of the route is pushed only when nothing was generated
  or the last generated point is more than 1 metre away from it.
\<close>

definition generateHighResolutionRoute :: "point list \<Rightarrow> real \<Rightarrow> real \<Rightarrow> point list" where
  "generateHighResolutionRoute routePoints speedKmh updateIntervalMs =
     (if length routePoints < 2 then routePoints
      else (let speedMps = speedKmh * 1000 / 3600;
                distancePerUpdate = speedMps * (updateIntervalMs / 1000);
                totalDistance = totalLoop routePoints 0 0;
                numPoints = \<lceil>totalDistance / distancePerUpdate\<rceil>;
                highResPoints = pointsLoop routePoints distancePerUpdate numPoints 0 [];
                lastOriginal = last routePoints;
                lastGenerated = last highResPoints
            in if highResPoints = [] \<or>
                  1 < calculateDistanceMeters (lat lastGenerated) (lng lastGenerated)
                        (lat lastOriginal) (lng lastOriginal)
               then highResPoints @ [lastOriginal]
               else highResPoints))"

section \<open>Properties of the status update\<close>

lemma updateStatus_not_found:
  "trackings d oid = None \<Longrightarrow>
   updateStatus d now oid st = (Inl (NotFound ''Tracking not found''), d, [])"
  by (simp add: updateStatus_def)

lemma updateStatus_invalid:
  "trackings d oid = Some t \<Longrightarrow> \<not> enumValidator st \<Longrightarrow>
   updateStatus d now oid st = (Inl (ServerError ValidationError), d, [])"
  by (simp add: updateStatus_def save_tracking_def)

lemma updateStatus_valid:
  "trackings d oid = Some t \<Longrightarrow> enumValidator st \<Longrightarrow>
   updateStatus d now oid st =
     (Inr (t\<lparr>status := st, lastUpdated := now\<rparr>),
      (if deliveryType t = DT_subscription \<or> length oid = 24
       then syncSubscription (d\<lparr>trackings := (trackings d)(oid \<mapsto> t\<lparr>status := st, lastUpdated := now\<rparr>)\<rparr>)
              now oid st
       else d\<lparr>trackings := (trackings d)(oid \<mapsto> t\<lparr>status := st, lastUpdated := now\<rparr>)\<rparr>),
      [\<lparr>room = ''order:'' @ oid, name = ''statusUpdate'',
        data = [(''orderId'', JString oid), (''status'', status_value st),
                (''timestamp'', JIso now)]\<rparr>])"
  by (simp add: updateStatus_def save_tracking_def Let_def)

lemma updateStatus_success_iff:
  "(\<exists>t'. fst (updateStatus d now oid st) = Inr t') \<longleftrightarrow>
   (trackings d oid \<noteq> None \<and> enumValidator st)"
proof (cases "trackings d oid")
  case None
  then show ?thesis by (simp add: updateStatus_not_found)
next
  case (Some t)
  then show ?thesis
    by (cases "enumValidator st") (simp_all add: updateStatus_valid updateStatus_invalid)
qed

text \<open>
  A status string outside the enumeration is rejected by the validation of \<open>save\<close>: the
  request fails, and store and events stay as they were.
\<close>

lemma updateStatus_rejects_unknown_string:
  assumes "x \<notin> set status_enum"
  shows "(\<exists>err. updateStatus d now oid (Some x) = (Inl err, d, [])) \<and>
         (trackings d oid \<noteq> None \<longrightarrow>
            updateStatus d now oid (Some x) = (Inl (ServerError ValidationError), d, []))"
proof (cases "trackings d oid")
  case None
  then show ?thesis by (simp add: updateStatus_not_found)
next
  case (Some t)
  from assms have "\<not> enumValidator (Some x)" by (simp add: enumValidator_def)
  with Some show ?thesis by (simp add: updateStatus_invalid)
qed

text \<open>
  C8 fails on a request without a status. The absent status passes the validation of
  \<open>save\<close>: on the record below the call answers with success, stores the record with its
  status unset and a new \<open>lastUpdated\<close>, and publishes a \<open>statusUpdate\<close> whose status is
  \<open>undefined\<close>.
\<close>

theorem updateStatus_accepts_absent_status:
  "updateStatus \<lparr>trackings = [''o1'' \<mapsto> new_Tracking ''o1'' 0], subscriptions = Map.empty\<rparr>
       7 ''o1'' None =
     (Inr ((new_Tracking ''o1'' 0)\<lparr>status := None, lastUpdated := 7\<rparr>),
      \<lparr>trackings = [''o1'' \<mapsto> (new_Tracking ''o1'' 0)\<lparr>status := None, lastUpdated := 7\<rparr>],
       subscriptions = Map.empty\<rparr>,
      [\<lparr>room = ''order:o1'', name = ''statusUpdate'',
        data = [(''orderId'', JString ''o1''), (''status'', JUndefined),
                (''timestamp'', JIso 7)]\<rparr>]) \<and>
   status (new_Tracking ''o1'' 0) = Some ''assigned''"
  by (simp add: updateStatus_def save_tracking_def enumValidator_def status_value_def
      new_Tracking_def Let_def)

text \<open>
  C1, as the code has it. The synchronisation is guarded by
  \<open>deliveryType === 'subscription' || orderId.length === 24\<close>: a status update on a
  record of type \<open>order\<close> whose identifier is not 24 characters long changes no
  subscription at all.
\<close>

theorem updateStatus_order_keeps_subscriptions:
  assumes "trackings d oid = Some t" and "deliveryType t = DT_order" and "length oid \<noteq> 24"
  shows "subscriptions (fst (snd (updateStatus d now oid st))) = subscriptions d"
proof (cases "enumValidator st")
  case True
  with assms show ?thesis by (simp add: updateStatus_valid)
next
  case False
  with assms show ?thesis by (simp add: updateStatus_invalid)
qed

theorem updateStatus_order_keeps_subscriptions_witness:
  "trackings \<lparr>trackings = [''o1'' \<mapsto> new_Tracking ''o1'' 0],
              subscriptions = [''65a1b2c3d4e5f60718293a4b'' \<mapsto> new_Subscription ''Milk'' 0]\<rparr> ''o1''
     = Some (new_Tracking ''o1'' 0) \<and>
   deliveryType (new_Tracking ''o1'' 0) = DT_order \<and> length ''o1'' \<noteq> 24 \<and>
   subscriptions (fst (snd (updateStatus
       \<lparr>trackings = [''o1'' \<mapsto> new_Tracking ''o1'' 0],
        subscriptions = [''65a1b2c3d4e5f60718293a4b'' \<mapsto> new_Subscription ''Milk'' 0]\<rparr>
       7 ''o1'' (Some ''delivered''))))
     = [''65a1b2c3d4e5f60718293a4b'' \<mapsto> new_Subscription ''Milk'' 0]"
proof -
  let ?d = "\<lparr>trackings = [''o1'' \<mapsto> new_Tracking ''o1'' 0],
             subscriptions = [''65a1b2c3d4e5f60718293a4b'' \<mapsto> new_Subscription ''Milk'' 0]\<rparr>"
  have h1: "trackings ?d ''o1'' = Some (new_Tracking ''o1'' 0)" by simp
  have h2: "deliveryType (new_Tracking ''o1'' 0) = DT_order" by (simp add: new_Tracking_def)
  have h3: "length ''o1'' \<noteq> 24" by simp
  from updateStatus_order_keeps_subscriptions [OF h1 h2 h3, of 7 "Some ''delivered''"]
  show ?thesis using h1 h2 h3 by simp
qed

text \<open>
  C1, as the claim states it, fails: the record below has type \<open>order\<close> and a
  24-character identifier that is also the identifier of a subscription; setting its
  status to \<open>en_route\<close> rewrites that subscription's \<open>deliveryStatus\<close>.
\<close>

theorem updateStatus_order_syncs_counterexample:
  "deliveryType (new_Tracking ''65a1b2c3d4e5f60718293a4b'' 0) = DT_order \<and>
   deliveryStatus (new_Subscription ''Milk'' 0) = ''pending'' \<and>
   map_option deliveryStatus
     (subscriptions (fst (snd (updateStatus
        \<lparr>trackings = [''65a1b2c3d4e5f60718293a4b'' \<mapsto> new_Tracking ''65a1b2c3d4e5f60718293a4b'' 0],
         subscriptions = [''65a1b2c3d4e5f60718293a4b'' \<mapsto> new_Subscription ''Milk'' 0]\<rparr>
        7 ''65a1b2c3d4e5f60718293a4b'' (Some ''en_route''))))
      ''65a1b2c3d4e5f60718293a4b'')
     = Some ''out_for_delivery''"
  by (simp add: updateStatus_def save_tracking_def enumValidator_def status_enum_def
      syncSubscription_def statusMap_def new_Tracking_def new_Subscription_def Let_def)

text \<open>
  C6. Setting the status to \<open>delivered\<close> on a delivery that is synchronised (type
  \<open>subscription\<close>, or a 24-character identifier) and whose subscription is found marks the
  subscription delivered, sets \<open>lastDeliveredDate\<close> to now, adds one to
  \<open>deliveriesInCycle\<close> and sets \<open>nextDelivery\<close> to now plus 1, 2 or 7 days for the plans
  \<open>daily\<close>, \<open>alternate\<close>, \<open>weekly\<close>, and plus 1 day for any other plan.
\<close>

theorem updateStatus_delivered_advances_subscription:
  assumes "trackings d oid = Some t"
    and "deliveryType t = DT_subscription \<or> length oid = 24"
    and "subscriptions d oid = Some sub"
  shows "subscriptions (fst (snd (updateStatus d now oid (Some ''delivered'')))) oid =
         Some (sub\<lparr>deliveryStatus := ''delivered'',
                   lastDeliveredDate := Some now,
                   deliveriesInCycle := deliveriesInCycle sub + 1,
                   nextDelivery := now +
                     (if plan sub = ''daily'' then 1
                      else if plan sub = ''alternate'' then 2
                      else if plan sub = ''weekly'' then 7
                      else 1) * 86400000\<rparr>)"
proof -
  have v: "enumValidator (Some ''delivered'')"
    by (simp add: enumValidator_def status_enum_def)
  have m: "map_of statusMap ''delivered'' = Some ''delivered''" by (simp add: statusMap_def)
  show ?thesis
    using assms
    by (simp add: updateStatus_valid [OF assms(1) v] syncSubscription_def m Let_def
        nextDeliveryDate_def addDays_def)
qed

theorem updateStatus_delivered_advances_subscription_witness:
  "trackings \<lparr>trackings = [''65a1b2c3d4e5f60718293a4b'' \<mapsto> (new_Tracking ''65a1b2c3d4e5f60718293a4b'' 0)\<lparr>deliveryType := DT_subscription\<rparr>],
              subscriptions = [''65a1b2c3d4e5f60718293a4b'' \<mapsto> (new_Subscription ''Milk'' 0)\<lparr>plan := ''weekly''\<rparr>]\<rparr> ''65a1b2c3d4e5f60718293a4b''
     = Some ((new_Tracking ''65a1b2c3d4e5f60718293a4b'' 0)\<lparr>deliveryType := DT_subscription\<rparr>) \<and>
   deliveryType ((new_Tracking ''65a1b2c3d4e5f60718293a4b'' 0)\<lparr>deliveryType := DT_subscription\<rparr>) = DT_subscription \<and>
   subscriptions (fst (snd (updateStatus
       \<lparr>trackings = [''65a1b2c3d4e5f60718293a4b'' \<mapsto> (new_Tracking ''65a1b2c3d4e5f60718293a4b'' 0)\<lparr>deliveryType := DT_subscription\<rparr>],
        subscriptions = [''65a1b2c3d4e5f60718293a4b'' \<mapsto> (new_Subscription ''Milk'' 0)\<lparr>plan := ''weekly''\<rparr>]\<rparr>
       1704844800000 ''65a1b2c3d4e5f60718293a4b'' (Some ''delivered'')))) ''65a1b2c3d4e5f60718293a4b''
     = Some ((new_Subscription ''Milk'' 0)
          \<lparr>plan := ''weekly'', deliveryStatus := ''delivered'',
           lastDeliveredDate := Some 1704844800000, deliveriesInCycle := 1,
           nextDelivery := 1705449600000\<rparr>)"
proof -
  let ?t = "(new_Tracking ''65a1b2c3d4e5f60718293a4b'' 0)\<lparr>deliveryType := DT_subscription\<rparr>"
  let ?s = "(new_Subscription ''Milk'' 0)\<lparr>plan := ''weekly''\<rparr>"
  let ?d = "\<lparr>trackings = [''65a1b2c3d4e5f60718293a4b'' \<mapsto> ?t], subscriptions = [''65a1b2c3d4e5f60718293a4b'' \<mapsto> ?s]\<rparr>"
  have h1: "trackings ?d ''65a1b2c3d4e5f60718293a4b'' = Some ?t" by simp
  have h2: "deliveryType ?t = DT_subscription \<or> length ''65a1b2c3d4e5f60718293a4b'' = 24" by simp
  have h3: "subscriptions ?d ''65a1b2c3d4e5f60718293a4b'' = Some ?s" by simp
  from updateStatus_delivered_advances_subscription [OF h1 h2 h3, of 1704844800000]
  show ?thesis using h1 by (simp add: new_Subscription_def)
qed

text \<open>
  C7, as the code has it. A status update that succeeds, with a status of the enumeration
  or with none at all, publishes exactly one event: a \<open>statusUpdate\<close> to the room of the
  delivery, whose payload has exactly the fields \<open>orderId\<close> (the identifier of the updated
  delivery), \<open>status\<close> (the status just set: the string of the request, or \<open>undefined\<close>
  when the request carries none) and \<open>timestamp\<close> (the record's new \<open>lastUpdated\<close>, the
  time of the call).
\<close>

theorem updateStatus_publishes_statusUpdate:
  assumes "fst (updateStatus d now oid st) = Inr t'"
  shows "snd (snd (updateStatus d now oid st)) =
           [\<lparr>room = ''order:'' @ oid, name = ''statusUpdate'',
             data = [(''orderId'', JString oid),
                     (''status'', (case st of None \<Rightarrow> JUndefined | Some x \<Rightarrow> JString x)),
                     (''timestamp'', JIso now)]\<rparr>] \<and>
         status t' = st \<and> lastUpdated t' = now"
proof -
  from assms have "\<exists>t'. fst (updateStatus d now oid st) = Inr t'" by blast
  then obtain t where t: "trackings d oid = Some t" and v: "enumValidator st"
    by (auto simp: updateStatus_success_iff)
  from assms show ?thesis
    by (auto simp: updateStatus_valid [OF t v] status_value_def)
qed

theorem updateStatus_publishes_statusUpdate_witness:
  "fst (updateStatus \<lparr>trackings = [''o1'' \<mapsto> new_Tracking ''o1'' 0], subscriptions = Map.empty\<rparr>
          7 ''o1'' (Some ''en_route''))
     = Inr ((new_Tracking ''o1'' 0)\<lparr>status := Some ''en_route'', lastUpdated := 7\<rparr>) \<and>
   snd (snd (updateStatus \<lparr>trackings = [''o1'' \<mapsto> new_Tracking ''o1'' 0], subscriptions = Map.empty\<rparr>
          7 ''o1'' (Some ''en_route'')))
     = [\<lparr>room = ''order:o1'', name = ''statusUpdate'',
         data = [(''orderId'', JString ''o1''), (''status'', JString ''en_route''),
                 (''timestamp'', JIso 7)]\<rparr>]"
proof -
  let ?d = "\<lparr>trackings = [''o1'' \<mapsto> new_Tracking ''o1'' 0], subscriptions = Map.empty\<rparr>"
  have h: "fst (updateStatus ?d 7 ''o1'' (Some ''en_route''))
             = Inr ((new_Tracking ''o1'' 0)\<lparr>status := Some ''en_route'', lastUpdated := 7\<rparr>)"
    by (simp add: updateStatus_def save_tracking_def enumValidator_def status_enum_def Let_def)
  from updateStatus_publishes_statusUpdate [OF h] h
  show ?thesis by simp
qed

text \<open>
  C7, as the claim states it, fails on the name of the first field: the payload of the
  event published by the call below has the fields \<open>orderId\<close>, \<open>status\<close>, \<open>timestamp\<close> and
  no field \<open>deliveryId\<close>.
\<close>

theorem updateStatus_payload_counterexample:
  "map (map fst \<circ> data)
     (snd (snd (updateStatus
        \<lparr>trackings = [''o1'' \<mapsto> new_Tracking ''o1'' 0], subscriptions = Map.empty\<rparr>
        7 ''o1'' (Some ''en_route''))))
     = [[''orderId'', ''status'', ''timestamp'']] \<and>
   ''deliveryId'' \<notin> set [''orderId'', ''status'', ''timestamp'']"
  by (simp add: updateStatus_def save_tracking_def enumValidator_def status_enum_def Let_def)

section \<open>Properties of the location update\<close>

lemma updateLocation_found:
  "trackings d oid = Some t \<Longrightarrow>
   updateLocation d now oid la lo hdg spd =
     (Inr (t\<lparr>currentLocation := (currentLocation t)
                \<lparr>cl_latitude := Some la, cl_longitude := Some lo,
                 cl_heading := or_zero hdg, cl_speed := or_zero spd\<rparr>,
              route := (route t)\<lparr>eta := newEta (destination t) now la lo\<rparr>,
              lastUpdated := now,
              history := slice_last 100
                (history t @ [\<lparr>h_latitude = la, h_longitude = lo, timestamp = now\<rparr>])\<rparr>),
      d\<lparr>trackings := (trackings d)(oid \<mapsto>
          t\<lparr>currentLocation := (currentLocation t)
                \<lparr>cl_latitude := Some la, cl_longitude := Some lo,
                 cl_heading := or_zero hdg, cl_speed := or_zero spd\<rparr>,
              route := (route t)\<lparr>eta := newEta (destination t) now la lo\<rparr>,
              lastUpdated := now,
              history := slice_last 100
                (history t @ [\<lparr>h_latitude = la, h_longitude = lo, timestamp = now\<rparr>])\<rparr>)\<rparr>,
      [\<lparr>room = ''order:'' @ oid, name = ''driverLocation'',
        data = [(''orderId'', JString oid), (''latitude'', JNumber la),
                (''longitude'', JNumber lo), (''heading'', JNumber (or_zero hdg)),
                (''speed'', JNumber (or_zero spd)),
                (''eta'', (case newEta (destination t) now la lo of None \<Rightarrow> JUndefined
                           | Some e \<Rightarrow> JIso e)),
                (''timestamp'', JIso now)]\<rparr>])"
  by (simp add: updateLocation_def Let_def)

lemma newEta_nonzero:
  "pl_latitude dest = Some dlat \<Longrightarrow> pl_longitude dest = Some dlng \<Longrightarrow>
   dlat \<noteq> 0 \<Longrightarrow> dlng \<noteq> 0 \<Longrightarrow>
   newEta dest now la lo =
     Some (new_Date (real_of_int now + (calculateDistance la lo dlat dlng / 1000) / 30 * 3600 * 1000))"
  by (simp add: newEta_def Let_def)

lemma slice_last_append_slice_last:
  "slice_last n (slice_last n xs @ ys) = slice_last n (xs @ ys)"
proof (cases "length xs \<le> n")
  case True
  then show ?thesis by (simp add: slice_last_def)
next
  case False
  then have "slice_last n xs @ ys = drop (length xs - n) (xs @ ys)"
    by (simp add: slice_last_def)
  moreover from False have "length (slice_last n xs @ ys) - n + (length xs - n) = length (xs @ ys) - n"
    by (simp add: slice_last_def)
  ultimately show ?thesis
    by (simp add: slice_last_def del: drop_append length_append length_drop)
qed

lemma slice_last_append_long:
  "n \<le> length ys \<Longrightarrow> slice_last n (xs @ ys) = drop (length ys - n) ys"
  by (simp add: slice_last_def)

lemma updateLocations_history:
  "trackings d oid = Some t \<Longrightarrow>
   \<exists>d' t'. updateLocations d oid us = Inr d' \<and> trackings d' oid = Some t' \<and>
           history t' = (if us = [] then history t
                         else slice_last 100 (history t @ map history_of us))"
proof (induction us arbitrary: d t)
  case Nil
  then show ?case by simp
next
  case (Cons u us)
  let ?t1 = "t\<lparr>currentLocation := (currentLocation t)
                \<lparr>cl_latitude := Some (u_latitude u), cl_longitude := Some (u_longitude u),
                 cl_heading := or_zero (u_heading u), cl_speed := or_zero (u_speed u)\<rparr>,
              route := (route t)\<lparr>eta := newEta (destination t) (u_now u) (u_latitude u) (u_longitude u)\<rparr>,
              lastUpdated := u_now u,
              history := slice_last 100 (history t @ [history_of u])\<rparr>"
  let ?d1 = "d\<lparr>trackings := (trackings d)(oid \<mapsto> ?t1)\<rparr>"
  have step: "updateLocations d oid (u # us) = updateLocations ?d1 oid us"
    by (simp add: updateLocation_found [OF Cons.prems] history_of_def)
  have found: "trackings ?d1 oid = Some ?t1" by simp
  from Cons.IH [OF found] obtain d' t' where
    r: "updateLocations ?d1 oid us = Inr d'" "trackings d' oid = Some t'"
       "history t' = (if us = [] then history ?t1
                      else slice_last 100 (history ?t1 @ map history_of us))"
    by blast
  have "history t' = slice_last 100 (history t @ map history_of (u # us))"
  proof (cases "us = []")
    case True
    with r(3) show ?thesis by simp
  next
    case False
    with r(3) have "history t' = slice_last 100 (slice_last 100 (history t @ [history_of u]) @ map history_of us)"
      by simp
    then show ?thesis by (simp add: slice_last_append_slice_last)
  qed
  with r(1,2) step show ?case by auto
qed

text \<open>
  C4. After a run of at least 101 location updates on one existing record every call has
  succeeded, and the record's history holds exactly the entries of the last 100 calls, in
  the order of the calls; it has 100 entries.
\<close>

theorem updateLocations_keeps_last_100:
  assumes "trackings d oid = Some t" and "101 \<le> length us"
  shows "\<exists>d' t'. updateLocations d oid us = Inr d' \<and> trackings d' oid = Some t' \<and>
           history t' = map history_of (drop (length us - 100) us) \<and>
           length (history t') = 100"
proof -
  from assms(2) have ne: "us \<noteq> []" by auto
  from updateLocations_history [OF assms(1), of us] ne obtain d' t' where
    r: "updateLocations d oid us = Inr d'" "trackings d' oid = Some t'"
       "history t' = slice_last 100 (history t @ map history_of us)"
    by auto
  from assms(2) have "slice_last 100 (history t @ map history_of us)
        = drop (length (map history_of us) - 100) (map history_of us)"
    by (intro slice_last_append_long) simp
  then have h: "history t' = map history_of (drop (length us - 100) us)"
    using r(3) by (simp add: drop_map)
  moreover from h assms(2) have "length (history t') = 100" by simp
  ultimately show ?thesis using r(1,2) by blast
qed

theorem updateLocations_keeps_last_100_witness:
  "trackings \<lparr>trackings = [''o1'' \<mapsto> new_Tracking ''o1'' 0], subscriptions = Map.empty\<rparr> ''o1''
     = Some (new_Tracking ''o1'' 0) \<and>
   101 \<le> length (\<lparr>u_now = 1, u_latitude = 28.6, u_longitude = 77.3, u_heading = None,
                    u_speed = None\<rparr> #
                  replicate 100 \<lparr>u_now = 2, u_latitude = 28.7, u_longitude = 77.4,
                    u_heading = Some 90, u_speed = Some 8\<rparr>) \<and>
   (\<exists>d' t'. updateLocations
        \<lparr>trackings = [''o1'' \<mapsto> new_Tracking ''o1'' 0], subscriptions = Map.empty\<rparr> ''o1''
        (\<lparr>u_now = 1, u_latitude = 28.6, u_longitude = 77.3, u_heading = None, u_speed = None\<rparr> #
         replicate 100 \<lparr>u_now = 2, u_latitude = 28.7, u_longitude = 77.4,
           u_heading = Some 90, u_speed = Some 8\<rparr>) = Inr d' \<and>
      trackings d' ''o1'' = Some t' \<and>
      history t' = replicate 100 \<lparr>h_latitude = 28.7, h_longitude = 77.4, timestamp = 2\<rparr>)"
proof -
  let ?d = "\<lparr>trackings = [''o1'' \<mapsto> new_Tracking ''o1'' 0], subscriptions = Map.empty\<rparr>"
  let ?u1 = "\<lparr>u_now = 1, u_latitude = 28.6, u_longitude = 77.3, u_heading = None, u_speed = None\<rparr>"
  let ?u2 = "\<lparr>u_now = 2, u_latitude = 28.7, u_longitude = 77.4, u_heading = Some 90, u_speed = Some 8\<rparr>"
  have h1: "trackings ?d ''o1'' = Some (new_Tracking ''o1'' 0)" by simp
  have h2: "101 \<le> length (?u1 # replicate 100 ?u2)" by simp
  from updateLocations_keeps_last_100 [OF h1 h2]
  show ?thesis using h1 h2
    by (auto simp: history_of_def simp del: updateLocations.simps)
qed

text \<open>
  C5 fails on a destination that has both coordinates, one of them \<open>0\<close>: the guard tests
  the coordinates for truthiness. The destination below lies on the prime meridian, at
  (51.4779, 0); the update leaves the record without any ETA.
\<close>

theorem updateLocation_eta_prime_meridian:
  "map_option (eta \<circ> route)
     (trackings (fst (snd (updateLocation
        \<lparr>trackings = [''o1'' \<mapsto> (new_Tracking ''o1'' 0)
            \<lparr>destination := \<lparr>pl_latitude = Some 51.4779, pl_longitude = Some 0,
                              pl_address = None\<rparr>\<rparr>],
         subscriptions = Map.empty\<rparr>
        1000 ''o1'' 51.48 (- 0.01) None None))) ''o1'')
     = Some None"
  by (simp add: updateLocation_def newEta_def Let_def)

text \<open>
  C10. On an existing record whose destination lacks its latitude or its longitude the
  location update succeeds and stores the record changed in exactly this way: the current
  position is the reported one, heading and speed are the reported ones (\<open>0\<close> when not
  reported), \<open>lastUpdated\<close> is the time of the call, the history is the old history with
  the new entry appended, cut to its last 100 entries, and \<open>route.eta\<close> is null whatever
  it was. The event published carries the same position, heading, speed and time and no
  ETA.
\<close>

theorem updateLocation_without_destination:
  assumes "trackings d oid = Some t"
    and "pl_latitude (destination t) = None \<or> pl_longitude (destination t) = None"
  shows "updateLocation d now oid la lo hdg spd =
           (Inr (t\<lparr>currentLocation := (currentLocation t)
                     \<lparr>cl_latitude := Some la, cl_longitude := Some lo,
                      cl_heading := (case hdg of None \<Rightarrow> 0 | Some h \<Rightarrow> h),
                      cl_speed := (case spd of None \<Rightarrow> 0 | Some v \<Rightarrow> v)\<rparr>,
                   route := (route t)\<lparr>eta := None\<rparr>,
                   lastUpdated := now,
                   history := drop (length (history t) - 99)
                     (history t @ [\<lparr>h_latitude = la, h_longitude = lo, timestamp = now\<rparr>])\<rparr>),
            d\<lparr>trackings := (trackings d)(oid \<mapsto>
                 t\<lparr>currentLocation := (currentLocation t)
                     \<lparr>cl_latitude := Some la, cl_longitude := Some lo,
                      cl_heading := (case hdg of None \<Rightarrow> 0 | Some h \<Rightarrow> h),
                      cl_speed := (case spd of None \<Rightarrow> 0 | Some v \<Rightarrow> v)\<rparr>,
                   route := (route t)\<lparr>eta := None\<rparr>,
                   lastUpdated := now,
                   history := drop (length (history t) - 99)
                     (history t @ [\<lparr>h_latitude = la, h_longitude = lo, timestamp = now\<rparr>])\<rparr>)\<rparr>,
            [\<lparr>room = ''order:'' @ oid, name = ''driverLocation'',
              data = [(''orderId'', JString oid), (''latitude'', JNumber la),
                      (''longitude'', JNumber lo),
                      (''heading'', JNumber (case hdg of None \<Rightarrow> 0 | Some h \<Rightarrow> h)),
                      (''speed'', JNumber (case spd of None \<Rightarrow> 0 | Some v \<Rightarrow> v)),
                      (''eta'', JUndefined), (''timestamp'', JIso now)]\<rparr>])"
proof -
  from assms(2) have e: "newEta (destination t) now la lo = None"
    by (auto simp: newEta_def split: option.splits)
  have h: "or_zero hdg = (case hdg of None \<Rightarrow> 0 | Some h \<Rightarrow> h)"
    by (simp add: or_zero_def split: option.splits)
  have s: "or_zero spd = (case spd of None \<Rightarrow> 0 | Some v \<Rightarrow> v)"
    by (simp add: or_zero_def split: option.splits)
  have "length (history t @ [\<lparr>h_latitude = la, h_longitude = lo, timestamp = now\<rparr>]) - 100
        = length (history t) - 99"
    by simp
  then have c: "slice_last 100 (history t @ [\<lparr>h_latitude = la, h_longitude = lo, timestamp = now\<rparr>])
        = drop (length (history t) - 99)
            (history t @ [\<lparr>h_latitude = la, h_longitude = lo, timestamp = now\<rparr>])"
    by (simp only: slice_last_def)
  show ?thesis
    by (simp only: updateLocation_found [OF assms(1)] e h s c option.case)
qed

theorem updateLocation_without_destination_witness:
  "pl_latitude (destination ((new_Tracking ''o1'' 0)
      \<lparr>route := \<lparr>polyline = None, points = [], distance = None, duration = None,
                 eta = Some 5000\<rparr>,
       history := [\<lparr>h_latitude = 28.5, h_longitude = 77.2, timestamp = 900\<rparr>]\<rparr>)) = None \<and>
   fst (updateLocation
        \<lparr>trackings = [''o1'' \<mapsto> (new_Tracking ''o1'' 0)
           \<lparr>route := \<lparr>polyline = None, points = [], distance = None, duration = None,
                      eta = Some 5000\<rparr>,
            history := [\<lparr>h_latitude = 28.5, h_longitude = 77.2, timestamp = 900\<rparr>]\<rparr>],
         subscriptions = Map.empty\<rparr>
        1000 ''o1'' 28.6 77.3 (Some 90) None)
     = Inr ((new_Tracking ''o1'' 0)
         \<lparr>currentLocation := \<lparr>cl_latitude = Some 28.6, cl_longitude = Some 77.3,
                              cl_heading = 90, cl_speed = 0, cl_accuracy = 10\<rparr>,
          route := \<lparr>polyline = None, points = [], distance = None, duration = None,
                    eta = None\<rparr>,
          lastUpdated := 1000,
          history := [\<lparr>h_latitude = 28.5, h_longitude = 77.2, timestamp = 900\<rparr>,
                      \<lparr>h_latitude = 28.6, h_longitude = 77.3, timestamp = 1000\<rparr>]\<rparr>)"
proof -
  let ?t = "(new_Tracking ''o1'' 0)
      \<lparr>route := \<lparr>polyline = None, points = [], distance = None, duration = None,
                 eta = Some 5000\<rparr>,
       history := [\<lparr>h_latitude = 28.5, h_longitude = 77.2, timestamp = 900\<rparr>]\<rparr>"
  let ?d = "\<lparr>trackings = [''o1'' \<mapsto> ?t], subscriptions = Map.empty\<rparr>"
  have h1: "trackings ?d ''o1'' = Some ?t" by simp
  have h0: "pl_latitude (destination ?t) = None" by (simp add: new_Tracking_def)
  then have h2: "pl_latitude (destination ?t) = None \<or> pl_longitude (destination ?t) = None"
    by (rule disjI1)
  from updateLocation_without_destination [OF h1 h2, of 1000 "28.6" "77.3" "Some 90" None]
  show ?thesis using h0 by (simp add: new_Tracking_def)
qed

section \<open>Properties of the polyline codec\<close>

lemma charCodeAt_mid: "charCodeAt (pre @ c # post) (length pre) = Some (uint c)"
  by (simp add: charCodeAt_def)

lemma decodeChunks_returns:
  "\<exists>r j. decodeChunks s i sh res = Some (r, j) \<and> i < j"
proof (induction "length s - i" arbitrary: i sh res rule: less_induct)
  case less
  show ?case
  proof (cases "num_ge (map_option (\<lambda>c. c - 63) (charCodeAt s i)) 0x20")
    case True
    then have "i < length s"
      by (auto simp: charCodeAt_def num_ge_def split: if_splits)
    then have "length s - (i + 1) < length s - i" by simp
    from less [OF this] obtain r j where
      "decodeChunks s (i + 1) (sh + 5)
         (js_or res (js_shl (js_and (num_toInt32 (map_option (\<lambda>c. c - 63) (charCodeAt s i))) 0x1f) sh))
       = Some (r, j)" and "i + 1 < j"
      by blast
    with True show ?thesis
      by (subst decodeChunks.simps) (simp add: Let_def)
  next
    case False
    then show ?thesis
      by (subst decodeChunks.simps) (simp add: Let_def)
  qed
qed

lemma decodeLoop_returns:
  "\<exists>out. decodeLoop s i la lo pts = Some out \<and>
         length out \<le> length pts + (length s - i + 1) div 2"
proof (induction "length s - i" arbitrary: i la lo pts rule: less_induct)
  case less
  show ?case
  proof (cases "i < length s")
    case False
    then show ?thesis by (subst decodeLoop.simps) simp
  next
    case True
    obtain r1 j1 where c1: "decodeChunks s i 0 0 = Some (r1, j1)" and l1: "i < j1"
      using decodeChunks_returns by blast
    obtain r2 j2 where c2: "decodeChunks s j1 0 0 = Some (r2, j2)" and l2: "j1 < j2"
      using decodeChunks_returns by blast
    let ?la = "la + unzigzag r1" and ?lo = "lo + unzigzag r2"
    let ?pts = "pts @ [\<lparr>lat = real_of_int ?la / 100000, lng = real_of_int ?lo / 100000\<rparr>]"
    from True l1 l2 have "length s - j2 < length s - i" by simp
    from less [OF this] obtain out where
      o: "decodeLoop s j2 ?la ?lo ?pts = Some out"
         "length out \<le> length ?pts + (length s - j2 + 1) div 2"
      by blast
    from True l1 l2 have "(length s - j2 + 1) div 2 + 1 \<le> (length s - i + 1) div 2"
      by arith
    with o(2) have "length out \<le> length pts + (length s - i + 1) div 2" by simp
    moreover have "decodeLoop s i la lo pts = Some out"
      using True c1 c2 o(1) by (subst decodeLoop.simps) (simp add: Let_def)
    ultimately show ?thesis by blast
  qed
qed

lemma toInt32_id: "- 2147483648 \<le> x \<Longrightarrow> x < 2147483648 \<Longrightarrow> toInt32 x = x"
  by (simp add: toInt32_def signed_take_bit_int_eq_self)

lemma toInt32_nonneg: "0 \<le> x \<Longrightarrow> x < 2147483648 \<Longrightarrow> toInt32 x = x"
  by (simp add: toInt32_id)

lemma split_chunk:
  "(r::int) + (m + 32 * q) * 2 ^ sh = (r + m * 2 ^ sh) + q * 2 ^ (sh + 5)"
  by (simp add: power_add algebra_simps)

lemma or_push_bit_disjoint:
  fixes a b :: int
  assumes "0 \<le> a" and "a < 2 ^ n"
  shows "a OR push_bit n b = a + push_bit n b"
proof -
  from assms have a: "take_bit n a = a" by (simp add: take_bit_int_eq_self)
  have "take_bit n a AND push_bit n b = 0"
    by (auto simp: bit_eq_iff bit_and_iff bit_take_bit_iff bit_push_bit_iff)
  with a have "a AND push_bit n b = 0" by simp
  then show ?thesis by (simp add: disjunctive_add_eq_or)
qed

lemma and_31_mod: "(x::int) AND 31 = x mod 32"
proof -
  have m: "mask 5 = (31::int)" by (simp add: mask_eq_exp_minus_1)
  have "x AND mask 5 = x mod 2 ^ 5"
    by (simp only: take_bit_eq_mask [symmetric] take_bit_eq_mod)
  then show ?thesis by (simp add: m)
qed

lemma js_and_31: "0 \<le> x \<Longrightarrow> x < 2147483648 \<Longrightarrow> js_and x 0x1f = x mod 32"
  by (simp add: js_and_def toInt32_id and_31_mod)

lemma js_or_32:
  assumes "0 \<le> x" and "x < 32"
  shows "js_or 0x20 x = 32 + x"
proof -
  have "x OR push_bit 5 1 = x + push_bit 5 1"
    using assms by (intro or_push_bit_disjoint) simp_all
  with assms show ?thesis by (simp add: js_or_def toInt32_id or.commute)
qed

lemma js_shl_small:
  assumes "0 \<le> v" and "v * 2 ^ sh < 2147483648"
  shows "js_shl v sh = v * 2 ^ sh"
proof (cases "v = 0")
  case True
  then show ?thesis by (simp add: js_shl_def toInt32_def)
next
  case False
  with assms(1) have "1 \<le> v" by simp
  then have "(2::int) ^ sh \<le> v * 2 ^ sh" by simp
  with assms(2) have "(2::int) ^ sh < 2147483648" by linarith
  then have sh: "sh < 31" using power_less_imp_less_exp [of "2::int" sh 31] by simp
  from \<open>1 \<le> v\<close> have "v \<le> v * 2 ^ sh" by simp
  with assms have v: "toInt32 v = v" by (intro toInt32_id) linarith+
  from assms have "toInt32 (v * 2 ^ sh) = v * 2 ^ sh"
    by (intro toInt32_nonneg) simp_all
  with sh v show ?thesis by (simp add: js_shl_def push_bit_eq_mult)
qed

lemma js_or_disjoint:
  assumes "0 \<le> res" and "res < 2 ^ sh" and "0 \<le> v" and "res + v * 2 ^ sh < 2147483648"
  shows "js_or res (v * 2 ^ sh) = res + v * 2 ^ sh"
proof -
  from assms have nn: "0 \<le> v * 2 ^ sh" by simp
  with assms have "res < 2147483648" and "v * 2 ^ sh < 2147483648" by linarith+
  with assms nn have r: "toInt32 res = res" and s: "toInt32 (v * 2 ^ sh) = v * 2 ^ sh"
    by (simp_all add: toInt32_nonneg)
  have "res OR push_bit sh v = res + push_bit sh v"
    using assms(1,2) by (rule or_push_bit_disjoint)
  with r s show ?thesis by (simp add: js_or_def push_bit_eq_mult)
qed

lemma js_sar_nonneg: "0 \<le> v \<Longrightarrow> v < 2147483648 \<Longrightarrow> n < 32 \<Longrightarrow> js_sar v n = v div 2 ^ n"
  by (simp add: js_sar_def toInt32_id drop_bit_eq_div)

lemma js_sar_5_less: "0x20 \<le> v \<Longrightarrow> js_sar v 5 < v"
proof -
  assume a: "0x20 \<le> v"
  have le: "toInt32 v \<le> v"
  proof (cases "v < 2147483648")
    case True
    with a show ?thesis by (simp add: toInt32_id)
  next
    case False
    have "signed_take_bit 31 v < 2 ^ 31" by (rule signed_take_bit_int_less_exp)
    with False show ?thesis by (simp add: toInt32_def)
  qed
  have s: "js_sar v 5 = drop_bit 5 (toInt32 v)" by (simp add: js_sar_def)
  show ?thesis
  proof (cases "0 \<le> toInt32 v")
    case True
    with a le have "toInt32 v div 32 < v" by linarith
    then show ?thesis by (simp add: s drop_bit_eq_div)
  next
    case False
    then have "drop_bit 5 (toInt32 v) < 0" by simp
    with a s show ?thesis by linarith
  qed
qed

lemma encodeChunks_acc: "encodeChunks v acc = acc @ encodeChunks v []"
proof (induction "nat v" arbitrary: v acc rule: less_induct)
  case less
  show ?case
  proof (cases "0x20 \<le> v")
    case True
    then have "nat (js_sar v 5) < nat v" using js_sar_5_less [OF True] by simp
    note ih = less [OF this]
    let ?c = "fromCharCode (js_or 0x20 (js_and v 0x1f) + 63)"
    have "encodeChunks v acc = encodeChunks (js_sar v 5) (acc @ [?c])"
      using True by (subst encodeChunks.simps) simp
    also have "\<dots> = (acc @ [?c]) @ encodeChunks (js_sar v 5) []" by (rule ih)
    also have "\<dots> = acc @ encodeChunks (js_sar v 5) ([] @ [?c])"
      by (subst (2) ih) simp
    also have "encodeChunks (js_sar v 5) ([] @ [?c]) = encodeChunks v []"
      using True by (subst (2) encodeChunks.simps) simp
    finally show ?thesis .
  next
    case False
    then show ?thesis by (subst (1 2) encodeChunks.simps) simp
  qed
qed

lemma encodeChunks_small: "\<not> 0x20 \<le> v \<Longrightarrow> encodeChunks v [] = [fromCharCode (v + 63)]"
  by (subst encodeChunks.simps) simp

lemma encodeChunks_big:
  "0x20 \<le> v \<Longrightarrow> encodeChunks v [] =
     fromCharCode (js_or 0x20 (js_and v 0x1f) + 63) # encodeChunks (js_sar v 5) []"
  by (subst encodeChunks.simps, subst encodeChunks_acc) simp

lemma uint_fromCharCode: "0 \<le> n \<Longrightarrow> n < 65536 \<Longrightarrow> uint (fromCharCode n) = n"
  by (simp add: fromCharCode_def uint_word_of_int_eq take_bit_int_eq_self)

lemma decodeChunks_encodeChunks:
  assumes "0 \<le> v" and "0 \<le> res" and "res < 2 ^ sh" and "res + v * 2 ^ sh < 2147483648"
  shows "decodeChunks (pre @ encodeChunks v [] @ post) (length pre) sh res
         = Some (res + v * 2 ^ sh, length pre + length (encodeChunks v []))"
  using assms
proof (induction "nat v" arbitrary: v pre sh res rule: less_induct)
  case less
  from less.prems have vs: "v * 2 ^ sh < 2147483648" by linarith
  have "v \<le> v * 2 ^ sh" using less.prems(1) by (simp add: mult_le_cancel_left1)
  with vs have v31: "v < 2147483648" by linarith
  show ?case
  proof (cases "0x20 \<le> v")
    case False
    then have small: "v < 32" by simp
    have e: "encodeChunks v [] = [fromCharCode (v + 63)]"
      using False by (rule encodeChunks_small)
    have c: "charCodeAt (pre @ fromCharCode (v + 63) # post) (length pre) = Some (v + 63)"
      using less.prems(1) small by (simp add: charCodeAt_mid uint_fromCharCode)
    have a: "js_and v 0x1f = v"
      using less.prems(1) small by (simp add: js_and_31 v31)
    have r: "js_or res (js_shl v sh) = res + v * 2 ^ sh"
      using less.prems vs by (simp add: js_shl_small js_or_disjoint)
    show ?thesis
      using less.prems(1) small v31
      by (subst decodeChunks.simps)
         (simp add: e c Let_def num_ge_def num_toInt32_def toInt32_id a r)
  next
    case True
    let ?c = "fromCharCode (js_or 0x20 (js_and v 0x1f) + 63)"
    let ?v' = "v div 32"
    let ?res' = "res + (v mod 32) * 2 ^ sh"
    have e: "encodeChunks v [] = ?c # encodeChunks ?v' []"
      using True less.prems(1) v31 by (simp add: encodeChunks_big js_sar_nonneg)
    have a: "js_and v 0x1f = v mod 32"
      using less.prems(1) v31 by (simp add: js_and_31)
    have code: "js_or 0x20 (js_and v 0x1f) + 63 = 95 + v mod 32"
      by (simp add: a js_or_32)
    have c: "charCodeAt (pre @ ?c # encodeChunks ?v' [] @ post) (length pre) = Some (95 + v mod 32)"
      by (simp add: charCodeAt_mid code uint_fromCharCode)
    have b: "js_and (32 + v mod 32) 0x1f = v mod 32"
      by (simp add: js_and_31)
    have "(v mod 32) * 2 ^ sh \<le> v * 2 ^ sh"
      using less.prems(1) by (intro mult_right_mono) (simp_all add: zmod_le_nonneg_dividend)
    with less.prems have fit: "res + (v mod 32) * 2 ^ sh < 2147483648" by linarith
    then have vm: "(v mod 32) * 2 ^ sh < 2147483648" using less.prems(2) by linarith
    have r: "js_or res (js_shl (v mod 32) sh) = ?res'"
      using less.prems fit vm by (simp add: js_shl_small js_or_disjoint)
    have split: "v = ?v' * 32 + v mod 32" by simp
    have "?res' < 2 ^ sh + 31 * 2 ^ sh"
      using less.prems(3) by (intro add_less_le_mono mult_right_mono) simp_all
    then have p3: "?res' < 2 ^ (sh + 5)" by (simp add: power_add)
    have sum: "?res' + ?v' * 2 ^ (sh + 5) = res + v * 2 ^ sh"
      using split_chunk [of res "v mod 32" ?v' sh] by (simp only: mod_mult_div_eq)
    have "nat ?v' < nat v" using True by simp
    from less.hyps [OF this, of ?res' "sh + 5" "pre @ [?c]"] less.prems p3 sum
    have ih: "decodeChunks (pre @ ?c # encodeChunks ?v' [] @ post) (Suc (length pre)) (sh + 5) ?res'
              = Some (res + v * 2 ^ sh, Suc (length pre) + length (encodeChunks ?v' []))"
      by (simp add: pos_imp_zdiv_nonneg_iff)
    show ?thesis
      by (subst decodeChunks.simps)
         (simp add: e c Let_def num_ge_def num_toInt32_def toInt32_id b r ih)
  qed
qed

lemma zigzag_range:
  "- 1073741824 \<le> d \<Longrightarrow> d < 1073741824 \<Longrightarrow> 0 \<le> zigzag d \<and> zigzag d < 2147483648"
  by (simp add: zigzag_def)

lemma encodeNumber_zigzag:
  assumes "- 1073741824 \<le> d" and "d < 1073741824"
  shows "encodeNumber d = encodeChunks (zigzag d) []"
proof -
  from assms have d: "toInt32 d = d" by (intro toInt32_id) simp_all
  from assms have "toInt32 (d * 2) = d * 2" by (intro toInt32_id) simp_all
  with d have s: "js_shl d (Suc 0) = 2 * d" by (simp add: js_shl_def)
  from assms have "toInt32 (2 * d) = 2 * d" by (intro toInt32_id) simp_all
  then have n: "js_not (2 * d) = - 2 * d - 1" by (simp add: js_not_def not_int_def)
  show ?thesis by (simp add: encodeNumber_def Let_def s n zigzag_def)
qed

lemma unzigzag_zigzag:
  assumes "- 1073741824 \<le> d" and "d < 1073741824"
  shows "unzigzag (zigzag d) = d"
proof -
  from assms have r: "toInt32 (zigzag d) = zigzag d"
    by (intro toInt32_id) (simp_all add: zigzag_def)
  have one: "toInt32 1 = 1" by (simp add: toInt32_def)
  have a: "js_and (zigzag d) 1 = zigzag d mod 2"
    by (simp add: js_and_def r one and_one_eq)
  have s: "js_sar (zigzag d) (Suc 0) = zigzag d div 2"
    by (simp add: js_sar_def r drop_bit_eq_div)
  show ?thesis
  proof (cases "d < 0")
    case True
    then have z: "zigzag d = - 2 * d - 1" by (simp add: zigzag_def)
    have m: "zigzag d mod 2 = 1" unfolding z by presburger
    have q: "zigzag d div 2 = - d - 1" unfolding z by presburger
    from assms True have "toInt32 (- d - 1) = - d - 1" by (intro toInt32_id) simp_all
    then have "js_not (- d - 1) = d" by (simp add: js_not_def not_int_def)
    then show ?thesis by (simp add: unzigzag_def a s m q)
  next
    case False
    then have z: "zigzag d = 2 * d" by (simp add: zigzag_def)
    from a s have "js_and (2 * d) 1 = 0" and "js_sar (2 * d) (Suc 0) = d"
      by (simp_all add: z)
    then show ?thesis by (simp add: unzigzag_def z)
  qed
qed

lemma encodeChunks_nonempty: "encodeChunks v [] \<noteq> []"
  by (subst encodeChunks.simps, subst encodeChunks_acc) simp

lemma decodeChunks_encodeNumber:
  assumes "- 1073741824 \<le> d" and "d < 1073741824"
  shows "decodeChunks (pre @ encodeNumber d @ post) (length pre) 0 0
         = Some (zigzag d, length pre + length (encodeNumber d))"
proof -
  from zigzag_range [OF assms] have "0 \<le> zigzag d" and "zigzag d < 2147483648" by simp_all
  then have "decodeChunks (pre @ encodeChunks (zigzag d) [] @ post) (length pre) 0 0
      = Some (0 + zigzag d * 2 ^ 0, length pre + length (encodeChunks (zigzag d) []))"
    by (intro decodeChunks_encodeChunks) simp_all
  then show ?thesis by (simp add: encodeNumber_zigzag [OF assms])
qed

lemma encodeLoop_acc: "encodeLoop ps enc a b = enc @ encodeLoop ps [] a b"
proof (induction ps arbitrary: enc a b)
  case Nil
  then show ?case by simp
next
  case (Cons p ps)
  show ?case
    by (simp add: Let_def Cons.IH [of "enc @ _ @ _"] Cons.IH [of "_ @ _"])
qed

lemma encodeLoop_Cons:
  "encodeLoop (p # ps) [] a b =
     encodeNumber (js_round (lat p * 100000) - a) @
     encodeNumber (js_round (lng p * 100000) - b) @
     encodeLoop ps [] (js_round (lat p * 100000)) (js_round (lng p * 100000))"
  by (simp add: Let_def encodeLoop_acc [of ps "_ @ _"])

lemma decodeLoop_encodeLoop:
  assumes "\<forall>p\<in>set ps. \<bar>js_round (lat p * 100000)\<bar> < 536870912 \<and>
                      \<bar>js_round (lng p * 100000)\<bar> < 536870912"
    and "\<bar>la0\<bar> < 536870912" and "\<bar>lo0\<bar> < 536870912"
  shows "decodeLoop (pre @ encodeLoop ps [] la0 lo0) (length pre) la0 lo0 acc
         = Some (acc @ map snap ps)"
  using assms
proof (induction ps arbitrary: pre la0 lo0 acc)
  case Nil
  show ?case by (subst decodeLoop.simps) simp
next
  case (Cons p ps)
  let ?la = "js_round (lat p * 100000)" and ?lo = "js_round (lng p * 100000)"
  let ?e1 = "encodeNumber (?la - la0)" and ?e2 = "encodeNumber (?lo - lo0)"
  let ?rest = "encodeLoop ps [] ?la ?lo"
  from Cons.prems have la: "\<bar>?la\<bar> < 536870912" and lo: "\<bar>?lo\<bar> < 536870912" by simp_all
  from la Cons.prems(2) have dla: "- 1073741824 \<le> ?la - la0" "?la - la0 < 1073741824" by linarith+
  from lo Cons.prems(3) have dlo: "- 1073741824 \<le> ?lo - lo0" "?lo - lo0 < 1073741824" by linarith+
  have ne: "?e1 \<noteq> []"
    by (simp add: encodeNumber_zigzag [OF dla] encodeChunks_nonempty)
  have c1: "decodeChunks (pre @ ?e1 @ ?e2 @ ?rest) (length pre) 0 0
            = Some (zigzag (?la - la0), length pre + length ?e1)"
    by (rule decodeChunks_encodeNumber [OF dla])
  have "decodeChunks ((pre @ ?e1) @ ?e2 @ ?rest) (length (pre @ ?e1)) 0 0
            = Some (zigzag (?lo - lo0), length (pre @ ?e1) + length ?e2)"
    by (rule decodeChunks_encodeNumber [OF dlo])
  then have c2: "decodeChunks (pre @ ?e1 @ ?e2 @ ?rest) (length pre + length ?e1) 0 0
            = Some (zigzag (?lo - lo0), length pre + length ?e1 + length ?e2)"
    by simp
  from Cons.prems(1) have rest: "\<forall>p\<in>set ps. \<bar>js_round (lat p * 100000)\<bar> < 536870912 \<and>
                      \<bar>js_round (lng p * 100000)\<bar> < 536870912" by simp
  from Cons.IH [OF rest la lo, of "pre @ ?e1 @ ?e2" "acc @ [snap p]"]
  have ih: "decodeLoop (pre @ ?e1 @ ?e2 @ ?rest) (length pre + length ?e1 + length ?e2) ?la ?lo
              (acc @ [snap p]) = Some (acc @ snap p # map snap ps)"
    by (simp add: add.assoc)
  have enc: "encodeLoop (p # ps) [] la0 lo0 = ?e1 @ ?e2 @ ?rest"
    by (rule encodeLoop_Cons)
  show ?case
    unfolding enc using ne
    by (subst decodeLoop.simps)
       (simp add: c1 c2 Let_def unzigzag_zigzag [OF dla] unzigzag_zigzag [OF dlo]
          ih [unfolded snap_def] snap_def del: encodeLoop.simps)
qed

lemma decodePolyline_loop: "decodePolyline encoded = decodeLoop encoded 0 0 0 []"
  by (simp add: decodePolyline_def) (subst decodeLoop.simps, simp)

lemma js_round_bound:
  assumes "\<bar>x\<bar> \<le> 5368"
  shows "\<bar>js_round (x * 100000)\<bar> < 536870912"
proof -
  from assms have "x * 100000 + 1 / 2 < 536870912" and "- 536870911 \<le> x * 100000 + 1 / 2"
    by (simp_all add: abs_le_iff)
  then have "\<lfloor>x * 100000 + 1 / 2\<rfloor> < 536870912" and "- 536870911 \<le> \<lfloor>x * 100000 + 1 / 2\<rfloor>"
    by (simp_all add: floor_less_iff le_floor_iff)
  then show ?thesis unfolding js_round_def by linarith
qed

lemma js_round_close: "\<bar>real_of_int (js_round (x * 100000)) / 100000 - x\<bar> \<le> 1 / 200000"
proof -
  let ?y = "x * 100000 + 1 / 2"
  have "real_of_int \<lfloor>?y\<rfloor> \<le> ?y" and "?y < real_of_int \<lfloor>?y\<rfloor> + 1"
    by linarith+
  then show ?thesis unfolding js_round_def by linarith
qed

lemma close5_snap: "close5 p (snap p)"
  using js_round_close [of "lat p"] js_round_close [of "lng p"]
  by (simp add: close5_def snap_def)

lemma roundtrip_snap:
  assumes "\<forall>p\<in>set ps. \<bar>lat p\<bar> \<le> 5368 \<and> \<bar>lng p\<bar> \<le> 5368"
  shows "decodePolyline (encodePolyline ps) = Some (map snap ps)"
proof (cases "ps = []")
  case True
  then show ?thesis by (simp add: encodePolyline_def decodePolyline_def)
next
  case False
  from assms have "\<forall>p\<in>set ps. \<bar>js_round (lat p * 100000)\<bar> < 536870912 \<and>
                      \<bar>js_round (lng p * 100000)\<bar> < 536870912"
    by (simp add: js_round_bound)
  from decodeLoop_encodeLoop [OF this, of 0 0 "[]" "[]"] False
  show ?thesis by (simp add: encodePolyline_def decodePolyline_loop)
qed

text \<open>
  C9. \<open>decodePolyline\<close> returns on every string, well-formed or not: each run of the inner
  loop reads at least one character position and stops at the latest one position
  after the end, so a string of \<open>n\<close> code units yields at most \<open>(n + 1) div 2\<close> points; the
  empty string yields the empty sequence.
\<close>

theorem decodePolyline_terminates:
  "(\<exists>pts. decodePolyline s = Some pts \<and> 2 * length pts \<le> length s + 1) \<and>
   decodePolyline [] = Some []"
proof -
  from decodeLoop_returns [of s 0 0 0 "[]"] obtain out where
    o: "decodeLoop s 0 0 0 [] = Some out" "length out \<le> (length s + 1) div 2"
    by auto
  from o(2) have "2 * length out \<le> length s + 1" by simp
  with o(1) have "\<exists>pts. decodePolyline s = Some pts \<and> 2 * length pts \<le> length s + 1"
    by (simp add: decodePolyline_loop)
  moreover have "decodePolyline [] = Some []"
    by (simp add: decodePolyline_def)
  ultimately show ?thesis by (rule conjI)
qed

text \<open>
  C2, as the code has it. The encoder shifts each rounded difference left by one bit in
  32-bit arithmetic, so the round trip needs the differences to fit in 31 bits. For
  points whose coordinates have at most 5 decimal places and absolute value at most 5368
  degrees (every latitude and longitude does) decoding the encoding returns a sequence of
  the same length, each coordinate within \<open>1e-5\<close> of the input.
\<close>

theorem decodePolyline_encodePolyline:
  assumes "\<forall>p\<in>set ps. rounded5 (lat p) \<and> rounded5 (lng p)"
    and "\<forall>p\<in>set ps. \<bar>lat p\<bar> \<le> 5368 \<and> \<bar>lng p\<bar> \<le> 5368"
  shows "\<exists>qs. decodePolyline (encodePolyline ps) = Some qs \<and> list_all2 close5 ps qs"
proof -
  have "list_all2 close5 ps (map snap ps)"
    by (simp add: list_all2_map2 list_all2_same close5_snap)
  with roundtrip_snap [OF assms(2)] show ?thesis by blast
qed

theorem decodePolyline_encodePolyline_witness:
  "rounded5 38.5 \<and> rounded5 (- 120.2) \<and> rounded5 40.7 \<and> rounded5 (- 120.95) \<and>
   \<bar>38.5 :: real\<bar> \<le> 5368 \<and> \<bar>- 120.2 :: real\<bar> \<le> 5368 \<and>
   \<bar>40.7 :: real\<bar> \<le> 5368 \<and> \<bar>- 120.95 :: real\<bar> \<le> 5368 \<and>
   (\<exists>qs. decodePolyline (encodePolyline
            [\<lparr>lat = 38.5, lng = - 120.2\<rparr>, \<lparr>lat = 40.7, lng = - 120.95\<rparr>]) = Some qs \<and>
         list_all2 close5 [\<lparr>lat = 38.5, lng = - 120.2\<rparr>, \<lparr>lat = 40.7, lng = - 120.95\<rparr>] qs)"
proof -
  let ?ps = "[\<lparr>lat = 38.5, lng = - 120.2\<rparr>, \<lparr>lat = 40.7, lng = - 120.95\<rparr>]"
  have r: "rounded5 38.5 \<and> rounded5 (- 120.2) \<and> rounded5 40.7 \<and> rounded5 (- 120.95)"
    by (simp add: rounded5_def)
  then have h1: "\<forall>p\<in>set ?ps. rounded5 (lat p) \<and> rounded5 (lng p)" by simp
  have h2: "\<forall>p\<in>set ?ps. \<bar>lat p\<bar> \<le> 5368 \<and> \<bar>lng p\<bar> \<le> 5368" by simp
  from decodePolyline_encodePolyline [OF h1 h2] r
  show ?thesis by simp
qed

text \<open>
  C2, as the claim states it, fails beyond that range. The latitude 10737.41824 has 5
  decimal places; scaled it is \<open>2^30\<close>, the shift wraps it to \<open>- 2^31\<close>, the character
  written is \<open>?\<close> (code 63), and the string \<open>??\<close> decodes to the point (0, 0).
\<close>

theorem decodePolyline_encodePolyline_counterexample:
  "rounded5 10737.41824 \<and> rounded5 0 \<and>
   encodePolyline [\<lparr>lat = 10737.41824, lng = 0\<rparr>] = [63, 63] \<and>
   decodePolyline (encodePolyline [\<lparr>lat = 10737.41824, lng = 0\<rparr>]) = Some [\<lparr>lat = 0, lng = 0\<rparr>] \<and>
   \<not> list_all2 close5 [\<lparr>lat = 10737.41824, lng = 0\<rparr>] [\<lparr>lat = 0, lng = 0\<rparr>]"
proof -
  have e: "encodePolyline [\<lparr>lat = 10737.41824, lng = 0\<rparr>] = [63, 63]"
    by code_simp
  have "decodePolyline [63, 63] = Some [\<lparr>lat = 0, lng = 0\<rparr>]"
    by code_simp
  then have d: "decodePolyline (encodePolyline [\<lparr>lat = 10737.41824, lng = 0\<rparr>])
                = Some [\<lparr>lat = 0, lng = 0\<rparr>]"
    by (simp only: e)
  have r: "rounded5 10737.41824 \<and> rounded5 0"
    by (simp add: rounded5_def)
  have c: "\<not> list_all2 close5 [\<lparr>lat = 10737.41824, lng = 0\<rparr>] [\<lparr>lat = 0, lng = 0\<rparr>]"
    by (simp add: close5_def)
  from r e d c show ?thesis by blast
qed

section \<open>Properties of the route densifier\<close>

lemma distance_at_pole: "calculateDistanceMeters 90 lng1 90 lng2 = 0"
  by (simp add: calculateDistanceMeters_def atan2_def Let_def)

text \<open>
  C3, as the code has it. For a route of at least two points the densified sequence is
  never empty, and its last element is the route's final point itself or a generated point
  whose haversine distance to the final point is at most 1 metre: the final point is
  appended only when the last generated point is more than 1 metre away.
\<close>

theorem generateHighResolutionRoute_last:
  assumes "2 \<le> length routePoints" and "0 < speedKmh" and "0 < updateIntervalMs"
  shows "generateHighResolutionRoute routePoints speedKmh updateIntervalMs \<noteq> [] \<and>
         (last (generateHighResolutionRoute routePoints speedKmh updateIntervalMs) = last routePoints \<or>
          calculateDistanceMeters
            (lat (last (generateHighResolutionRoute routePoints speedKmh updateIntervalMs)))
            (lng (last (generateHighResolutionRoute routePoints speedKmh updateIntervalMs)))
            (lat (last routePoints)) (lng (last routePoints)) \<le> 1)"
proof -
  define H where "H = pointsLoop routePoints (speedKmh * 1000 / 3600 * (updateIntervalMs / 1000))
      \<lceil>totalLoop routePoints 0 0 / (speedKmh * 1000 / 3600 * (updateIntervalMs / 1000))\<rceil> 0 []"
  from assms(1) have nl: "\<not> length routePoints < 2" by simp
  have g: "generateHighResolutionRoute routePoints speedKmh updateIntervalMs =
      (if H = [] \<or> 1 < calculateDistanceMeters (lat (last H)) (lng (last H))
                         (lat (last routePoints)) (lng (last routePoints))
       then H @ [last routePoints] else H)"
    by (simp only: generateHighResolutionRoute_def Let_def H_def nl if_False)
  show ?thesis
  proof (cases "H = [] \<or> 1 < calculateDistanceMeters (lat (last H)) (lng (last H))
                         (lat (last routePoints)) (lng (last routePoints))")
    case True
    then show ?thesis by (simp add: g)
  next
    case False
    then show ?thesis by (simp add: g)
  qed
qed

theorem generateHighResolutionRoute_last_witness:
  "2 \<le> length [\<lparr>lat = 90, lng = 0\<rparr>, \<lparr>lat = 90, lng = 1 / 10 ^ 200\<rparr>] \<and>
   (0::real) < 30 \<and> (0::real) < 1000 \<and>
   generateHighResolutionRoute [\<lparr>lat = 90, lng = 0\<rparr>, \<lparr>lat = 90, lng = 1 / 10 ^ 200\<rparr>] 30 1000 \<noteq> [] \<and>
   calculateDistanceMeters
     (lat (last (generateHighResolutionRoute
        [\<lparr>lat = 90, lng = 0\<rparr>, \<lparr>lat = 90, lng = 1 / 10 ^ 200\<rparr>] 30 1000)))
     (lng (last (generateHighResolutionRoute
        [\<lparr>lat = 90, lng = 0\<rparr>, \<lparr>lat = 90, lng = 1 / 10 ^ 200\<rparr>] 30 1000)))
     90 (1 / 10 ^ 200) \<le> 1"
proof -
  let ?r = "[\<lparr>lat = 90, lng = 0\<rparr>, \<lparr>lat = 90, lng = 1 / 10 ^ 200\<rparr>]"
  have h1: "2 \<le> length ?r" by simp
  have h2: "(0::real) < 30" and h3: "(0::real) < 1000" by simp_all
  have ne: "last (generateHighResolutionRoute ?r 30 1000) \<noteq> last ?r"
    by (simp add: generateHighResolutionRoute_def Let_def totalLoop.simps pointsLoop.simps
        getPointAtDistance_def getPointLoop.simps distance_at_pole interpolatePoint_def)
  from generateHighResolutionRoute_last [OF h1 h2 h3] ne
  show ?thesis by simp
qed

text \<open>
  C3, as the claim states it, fails. Both points of the route below are the north pole,
  at different longitudes: every distance is 0, a single point is generated, the final
  point is within 1 metre of it and is not appended, and the result ends with the first
  point. (In double precision the cosine of 90 degrees is about \<open>6e-17\<close>; the longitude
  \<open>1e-200\<close> makes the product underflow to 0, so the computed distances are 0 there as well.)
\<close>

theorem generateHighResolutionRoute_counterexample:
  "generateHighResolutionRoute [\<lparr>lat = 90, lng = 0\<rparr>, \<lparr>lat = 90, lng = 1 / 10 ^ 200\<rparr>] 30 1000
     = [\<lparr>lat = 90, lng = 0\<rparr>] \<and>
   \<lparr>lat = 90, lng = 0\<rparr> \<noteq> \<lparr>lat = 90, lng = 1 / 10 ^ 200 :: real\<rparr>"
  by (simp add: generateHighResolutionRoute_def Let_def totalLoop.simps pointsLoop.simps
      getPointAtDistance_def getPointLoop.simps distance_at_pole interpolatePoint_def)

end
